theory Spec2Isabelle
  imports Main
begin

unbundle bit_operations_syntax

section \<open>DisplayResUtil: data model\<close>

text \<open>
  The program is \<^verbatim>\<open>src/DisplayResUtil.py\<close>: a class \<^verbatim>\<open>DisplayResUtil\<close> with the class
  methods \<^verbatim>\<open>set\<close>, \<^verbatim>\<open>get\<close>, \<^verbatim>\<open>get_modes\<close>, \<^verbatim>\<open>get_modes_sorted\<close>, their per-platform
  static methods, and the command-line entry point.

  A mode is the tuple \<^verbatim>\<open>(width, height)\<close> of Python ints. The arguments of \<^verbatim>\<open>set\<close> default
  to \<^verbatim>\<open>None\<close>, so they are optional ints.
\<close>

type_synonym mode = "int \<times> int"

text \<open>The fields of the native \<^verbatim>\<open>PyDEVMODE\<close> object that the program reads or writes.\<close>

record devmode =
  PelsWidth :: int
  PelsHeight :: int
  BitsPerPel :: int
  Fields :: int

text \<open>
  The exceptions of the program: \<^verbatim>\<open>NotImplementedError\<close> is raised by the Linux and macOS
  stubs, \<^verbatim>\<open>pywintypes.error\<close> by a failing pywin32 call, \<^verbatim>\<open>TypeError\<close> by Python itself
  when \<^verbatim>\<open>None\<close> is subscripted, iterated or searched, and \<^verbatim>\<open>OSError\<close> by a failing
  \<^verbatim>\<open>ctypes\<close> call.
\<close>

datatype error = NotImplementedError | TypeError | pywintypes_error | OSError

text \<open>
  What the program does to the outside world, in the order it does it: a line printed
  by \<^verbatim>\<open>print\<close>, the help text, and every native call with its arguments.
  \<open>EnumDisplaySettings (Some i)\<close> is the call \<^verbatim>\<open>EnumDisplaySettings(None, i)\<close>,
  \<open>EnumDisplaySettings None\<close> the call without arguments.
\<close>

datatype event =
    Print string
  | PrintHelp
  | SetProcessDpiAwareness int
  | SetProcessDPIAware
  | GetSystemMetrics int
  | EnumDisplaySettings "nat option"
  | ChangeDisplaySettings "devmode option" int

text \<open>
  The environment the program runs in. None of it is in the repository, so it is a
  parameter of every operation:
  \<^item> \<open>platform\<close>: the value of \<^verbatim>\<open>sys.platform\<close>;
  \<^item> \<open>shcore_SetProcessDpiAwareness\<close>, \<open>user32_SetProcessDPIAware\<close>,
    \<open>user32_GetSystemMetrics\<close>: the \<^verbatim>\<open>ctypes\<close> calls of \<^verbatim>\<open>_win32_get\<close>, each of which
    returns an int or raises;
  \<^item> \<open>display_settings\<close>: the table of modes of the display driver;
    \<^verbatim>\<open>win32api.EnumDisplaySettings(None, i)\<close> returns entry \<open>i\<close> and raises
    \<^verbatim>\<open>pywintypes.error\<close> past the end of the table;
  \<^item> \<open>current_settings\<close>: what \<^verbatim>\<open>win32api.EnumDisplaySettings()\<close> without arguments
    returns or raises;
  \<^item> \<open>win32api_ChangeDisplaySettings\<close>: the native mode change, which returns a status
    code or raises;
  \<^item> \<open>set_iter\<close>: the order in which Python iterates over the set of modes that the
    enumeration has built (it is fixed by the hashes of the members, not by the program
    and not by the order in which the driver reported them).
\<close>

record host =
  platform :: string
  shcore_SetProcessDpiAwareness :: "int \<Rightarrow> error + int"
  user32_SetProcessDPIAware :: "error + int"
  user32_GetSystemMetrics :: "int \<Rightarrow> error + int"
  display_settings :: "devmode list"
  current_settings :: "error + devmode"
  win32api_ChangeDisplaySettings :: "devmode option \<Rightarrow> int \<Rightarrow> error + int"
  set_iter :: "mode set \<Rightarrow> mode list"

section \<open>Effects: a trace of events and a result or an exception\<close>

type_synonym 'a io = "event list \<times> (error + 'a)"

definition ret :: "'a \<Rightarrow> 'a io" where
  "ret x = ([], Inr x)"

definition raise :: "error \<Rightarrow> 'a io" where
  "raise e = ([], Inl e)"

text \<open>Sequencing: an exception in the first part skips the second; the traces append.\<close>

definition bind_io :: "'a io \<Rightarrow> ('a \<Rightarrow> 'b io) \<Rightarrow> 'b io" where
  "bind_io m f =
     (case m of
        (t, Inl e) \<Rightarrow> (t, Inl e)
      | (t, Inr x) \<Rightarrow> (case f x of (t', r) \<Rightarrow> (t @ t', r)))"

definition print :: "string \<Rightarrow> unit io" where
  "print s = ([Print s], Inr ())"

text \<open>A native call is recorded in the trace, whether it returns or raises.\<close>

definition native :: "event \<Rightarrow> error + 'a \<Rightarrow> 'a io" where
  "native ev r = ([ev], r)"

section \<open>Python values: truthiness, \<^verbatim>\<open>str\<close>, \<^verbatim>\<open>startswith\<close>, \<^verbatim>\<open>sorted\<close>\<close>

text \<open>\<^verbatim>\<open>if x\<close> for an optional int: \<^verbatim>\<open>None\<close> and \<^verbatim>\<open>0\<close> are false.\<close>

definition truthy :: "int option \<Rightarrow> bool" where
  "truthy x = (case x of None \<Rightarrow> False | Some n \<Rightarrow> n \<noteq> 0)"

definition digit_char :: "nat \<Rightarrow> char" where
  "digit_char d = ''0123456789'' ! d"

function str_nat :: "nat \<Rightarrow> string" where
  "str_nat n = (if n < 10 then [digit_char n] else str_nat (n div 10) @ [digit_char (n mod 10)])"
  by pat_completeness auto
termination
  by (relation "measure (\<lambda>n. n)") auto

declare str_nat.simps [simp del]

text \<open>\<^verbatim>\<open>str(n)\<close> of a Python int, as an f-string renders it.\<close>

definition str_int :: "int \<Rightarrow> string" where
  "str_int i = (if i < 0 then CHR ''-'' # str_nat (nat (- i)) else str_nat (nat i))"

text \<open>An f-string field holding an optional int: \<^verbatim>\<open>None\<close> renders as \<^verbatim>\<open>None\<close>.\<close>

definition fmt :: "int option \<Rightarrow> string" where
  "fmt x = (case x of None \<Rightarrow> ''None'' | Some n \<Rightarrow> str_int n)"

definition startswith :: "string \<Rightarrow> string \<Rightarrow> bool" where
  "startswith s p = (take (length p) s = p)"

text \<open>
  Python's \<^verbatim>\<open>sorted(xs, key=k, reverse=r)\<close>: a stable sort by the key; with
  \<^verbatim>\<open>reverse=True\<close> the list is reversed, sorted stably and reversed again, which is how
  the interpreter keeps equal keys in their original order in a descending sort.
\<close>

definition sorted_py :: "('a \<Rightarrow> int) \<Rightarrow> bool \<Rightarrow> 'a list \<Rightarrow> 'a list" where
  "sorted_py k reverse xs = (if reverse then rev (sort_key k (rev xs)) else sort_key k xs)"

text \<open>The sort key of \<^verbatim>\<open>get_modes_sorted\<close>: \<^verbatim>\<open>lambda x: x[0] * x[1]\<close>.\<close>

definition area :: "mode \<Rightarrow> int" where
  "area x = fst x * snd x"

text \<open>
  \<^verbatim>\<open>current_mode == (width, height)\<close>: the left side is \<^verbatim>\<open>None\<close> or a tuple of two ints,
  the right side a tuple of two optional ints.
\<close>

definition eq_request :: "mode option \<Rightarrow> int option \<Rightarrow> int option \<Rightarrow> bool" where
  "eq_request current_mode width height =
     (case current_mode of
        None \<Rightarrow> False
      | Some (a, b) \<Rightarrow> width = Some a \<and> height = Some b)"

text \<open>
  \<^verbatim>\<open>(width, height) not in modes\<close>: a \<^verbatim>\<open>TypeError\<close> when \<^verbatim>\<open>modes\<close> is \<^verbatim>\<open>None\<close>; a tuple
  holding \<^verbatim>\<open>None\<close> equals no tuple of ints.
\<close>

definition not_in_modes :: "int option \<Rightarrow> int option \<Rightarrow> mode set option \<Rightarrow> bool io" where
  "not_in_modes width height modes =
     (case modes of
        None \<Rightarrow> raise TypeError
      | Some S \<Rightarrow>
          (case (width, height) of
             (Some w, Some h) \<Rightarrow> ret ((w, h) \<notin> S)
           | _ \<Rightarrow> ret True))"

section \<open>The Windows backend\<close>

text \<open>The constants \<^verbatim>\<open>win32con.DM_PELSWIDTH\<close> and \<^verbatim>\<open>win32con.DM_PELSHEIGHT\<close>.\<close>

definition DM_PELSWIDTH :: int where
  "DM_PELSWIDTH = 524288"

definition DM_PELSHEIGHT :: int where
  "DM_PELSHEIGHT = 1048576"

definition win32api_EnumDisplaySettings :: "host \<Rightarrow> nat \<Rightarrow> error + devmode" where
  "win32api_EnumDisplaySettings h i =
     (if i < length (display_settings h) then Inr (display_settings h ! i)
      else Inl pywintypes_error)"

text \<open>
  The loop of \<^verbatim>\<open>_win32_get_modes\<close>: \<^verbatim>\<open>while True\<close>, left only by the exception of the
  native call. It returns the trace, the exception and the set built so far.
\<close>

function win32_get_modes_loop :: "host \<Rightarrow> nat \<Rightarrow> mode set \<Rightarrow> event list \<times> error \<times> mode set" where
  "win32_get_modes_loop h i modes =
     (case win32api_EnumDisplaySettings h i of
        Inl e \<Rightarrow> ([EnumDisplaySettings (Some i)], e, modes)
      | Inr mode \<Rightarrow>
          (case win32_get_modes_loop h (i + 1) (insert (PelsWidth mode, PelsHeight mode) modes) of
             (t, r) \<Rightarrow> (EnumDisplaySettings (Some i) # t, r)))"
  by pat_completeness auto
termination
  by (relation "measure (\<lambda>(h, i, modes). length (display_settings h) - i)")
     (auto simp: win32api_EnumDisplaySettings_def split: if_splits)

declare win32_get_modes_loop.simps [simp del]

text \<open>\<^verbatim>\<open>except error: pass\<close>, then \<^verbatim>\<open>return modes\<close>.\<close>

definition win32_get_modes :: "host \<Rightarrow> mode set io" where
  "win32_get_modes h =
     (case win32_get_modes_loop h 0 {} of
        (t, e, modes) \<Rightarrow> (case e of pywintypes_error \<Rightarrow> (t, Inr modes) | _ \<Rightarrow> (t, Inl e)))"

definition win32_get :: "host \<Rightarrow> mode io" where
  "win32_get h =
     bind_io (native (SetProcessDpiAwareness 2) (shcore_SetProcessDpiAwareness h 2)) (\<lambda>_.
     bind_io (native SetProcessDPIAware (user32_SetProcessDPIAware h)) (\<lambda>_.
     bind_io (native (GetSystemMetrics 0) (user32_GetSystemMetrics h 0)) (\<lambda>w.
     bind_io (native (GetSystemMetrics 1) (user32_GetSystemMetrics h 1)) (\<lambda>h'.
     ret (w, h')))))"

definition win32_set :: "host \<Rightarrow> int option \<Rightarrow> int option \<Rightarrow> int option \<Rightarrow> unit io" where
  "win32_set h width height depth0 =
     (let depth = (if \<not> truthy depth0 then 32 else the depth0) in
      if \<not> truthy width \<or> \<not> truthy height then
        bind_io (native (ChangeDisplaySettings None 0) (win32api_ChangeDisplaySettings h None 0))
          (\<lambda>_. ret ())
      else
        bind_io (native (EnumDisplaySettings None) (current_settings h)) (\<lambda>mode.
        let mode = mode\<lparr>PelsWidth := the width, PelsHeight := the height, BitsPerPel := depth,
                         Fields := DM_PELSWIDTH OR DM_PELSHEIGHT\<rparr> in
        bind_io (native (ChangeDisplaySettings (Some mode) 0)
                   (win32api_ChangeDisplaySettings h (Some mode) 0))
          (\<lambda>_. ret ())))"

section \<open>The Linux and macOS stubs\<close>

definition linux_set :: "int option \<Rightarrow> int option \<Rightarrow> int option \<Rightarrow> unit io" where
  "linux_set width height depth = raise NotImplementedError"

definition linux_get :: "mode io" where
  "linux_get = raise NotImplementedError"

definition linux_get_modes :: "mode set io" where
  "linux_get_modes = raise NotImplementedError"

definition osx_set :: "int option \<Rightarrow> int option \<Rightarrow> int option \<Rightarrow> unit io" where
  "osx_set width height depth = raise NotImplementedError"

definition osx_get :: "mode io" where
  "osx_get = raise NotImplementedError"

definition osx_get_modes :: "mode set io" where
  "osx_get_modes = raise NotImplementedError"

section \<open>The class methods\<close>

text \<open>
  \<^verbatim>\<open>get\<close> and \<^verbatim>\<open>get_modes\<close> have no \<^verbatim>\<open>else\<close> branch: on any other platform they fall off
  the end and return \<^verbatim>\<open>None\<close>.
\<close>

definition get :: "host \<Rightarrow> mode option io" where
  "get h =
     (if platform h = ''win32'' then bind_io (win32_get h) (\<lambda>m. ret (Some m))
      else if startswith (platform h) ''linux'' then bind_io linux_get (\<lambda>m. ret (Some m))
      else if startswith (platform h) ''darwin'' then bind_io osx_get (\<lambda>m. ret (Some m))
      else ret None)"

definition get_modes :: "host \<Rightarrow> mode set option io" where
  "get_modes h =
     (if platform h = ''win32'' then bind_io (win32_get_modes h) (\<lambda>S. ret (Some S))
      else if startswith (platform h) ''linux'' then bind_io linux_get_modes (\<lambda>S. ret (Some S))
      else if startswith (platform h) ''darwin'' then bind_io osx_get_modes (\<lambda>S. ret (Some S))
      else ret None)"

text \<open>\<^verbatim>\<open>sorted(None, ...)\<close> raises \<^verbatim>\<open>TypeError\<close>.\<close>

definition get_modes_sorted :: "host \<Rightarrow> mode list io" where
  "get_modes_sorted h =
     bind_io (get_modes h) (\<lambda>modes.
       case modes of
         None \<Rightarrow> raise TypeError
       | Some S \<Rightarrow> ret (sorted_py area True (set_iter h S)))"

text \<open>
  The loop that prints the modes, the same in \<^verbatim>\<open>set\<close> and in the entry point:
  the line of the mode equal to \<^verbatim>\<open>current_mode\<close> ends in \<^verbatim>\<open> *\<close>.
\<close>

definition mode_line :: "mode option \<Rightarrow> mode \<Rightarrow> string" where
  "mode_line current_mode m =
     (if Some m = current_mode
      then ''    '' @ str_int (fst m) @ '' x '' @ str_int (snd m) @ '' *''
      else ''    '' @ str_int (fst m) @ '' x '' @ str_int (snd m))"

fun print_modes :: "mode option \<Rightarrow> mode list \<Rightarrow> unit io" where
  "print_modes current_mode [] = ret ()"
| "print_modes current_mode (m # ms) =
     bind_io (print (mode_line current_mode m)) (\<lambda>_. print_modes current_mode ms)"

text \<open>\<^verbatim>\<open>DisplayResUtil.set\<close> (\<open>set\<close> is the HOL constant of lists, hence the suffix).\<close>

definition set_res :: "host \<Rightarrow> int option \<Rightarrow> int option \<Rightarrow> int option \<Rightarrow> unit io" where
  "set_res h width height depth =
     bind_io (get h) (\<lambda>current_mode.
     if eq_request current_mode width height then
       print (''Resolution is already set to '' @ fmt width @ '' x '' @ fmt height)
     else
       bind_io (get_modes h) (\<lambda>modes.
       bind_io (not_in_modes width height modes) (\<lambda>absent.
       if absent then
         bind_io (print (fmt width @ '' x '' @ fmt height @ '' is not an available mode.'')) (\<lambda>_.
         bind_io (print ''Available Modes:'') (\<lambda>_.
         bind_io (get_modes_sorted h) (\<lambda>modes.
         print_modes current_mode modes)))
       else
         bind_io
           (if truthy width \<and> truthy height
            then print (''Setting resolution to '' @ fmt width @ '' x '' @ fmt height)
            else print ''Setting resolution to defaults'') (\<lambda>_.
         if platform h = ''win32'' then win32_set h width height depth
         else if startswith (platform h) ''linux'' then linux_set width height depth
         else if startswith (platform h) ''darwin'' then osx_set width height depth
         else ret ()))))"

section \<open>The command-line entry point\<close>

text \<open>
  The namespace that \<^verbatim>\<open>parser.parse_args()\<close> returns: \<^verbatim>\<open>dimensions\<close> is \<^verbatim>\<open>None\<close> or the two
  ints of \<^verbatim>\<open>--set\<close>, \<^verbatim>\<open>current\<close> and \<^verbatim>\<open>modes\<close> are the flags \<^verbatim>\<open>--current\<close> and \<^verbatim>\<open>--list\<close>.
\<close>

record args =
  dimensions :: "(int \<times> int) option"
  current :: bool
  modes :: bool

text \<open>\<^verbatim>\<open>mode[0]\<close> and \<^verbatim>\<open>mode[1]\<close>: a \<^verbatim>\<open>TypeError\<close> when \<^verbatim>\<open>mode\<close> is \<^verbatim>\<open>None\<close>.\<close>

definition subscript :: "mode option \<Rightarrow> mode io" where
  "subscript m = (case m of None \<Rightarrow> raise TypeError | Some x \<Rightarrow> ret x)"

definition main :: "host \<Rightarrow> args \<Rightarrow> unit io" where
  "main h a =
     (case dimensions a of
        Some (w, h') \<Rightarrow> set_res h (Some w) (Some h') (Some 32)
      | None \<Rightarrow>
          if current a then
            bind_io (get h) (\<lambda>mode.
            bind_io (subscript mode) (\<lambda>m.
            print (''Current Mode: '' @ str_int (fst m) @ '' x '' @ str_int (snd m))))
          else if modes a then
            bind_io (print ''Available Modes:'') (\<lambda>_.
            bind_io (get_modes_sorted h) (\<lambda>modes.
            bind_io (get h) (\<lambda>current_mode.
            print_modes current_mode modes)))
          else ([PrintHelp], Inr ()))"

section \<open>Observers of a trace\<close>

text \<open>The native mode change.\<close>

fun is_change :: "event \<Rightarrow> bool" where
  "is_change (ChangeDisplaySettings m f) = True"
| "is_change ev = False"

text \<open>A native enumeration call, with or without an index.\<close>

fun is_enum :: "event \<Rightarrow> bool" where
  "is_enum (EnumDisplaySettings i) = True"
| "is_enum ev = False"

text \<open>
  The native calls of the platform-specific apply method \<^verbatim>\<open>_win32_set\<close>: the mode change
  and the enumeration call without arguments that fetches the \<^verbatim>\<open>DEVMODE\<close> to fill in.
\<close>

fun is_apply :: "event \<Rightarrow> bool" where
  "is_apply (ChangeDisplaySettings m f) = True"
| "is_apply (EnumDisplaySettings None) = True"
| "is_apply ev = False"

text \<open>The lines written by \<^verbatim>\<open>print\<close>, in order.\<close>

fun printed :: "event list \<Rightarrow> string list" where
  "printed [] = []"
| "printed (Print s # t) = s # printed t"
| "printed (ev # t) = printed t"

text \<open>The native calls of one run of \<^verbatim>\<open>_win32_get_modes\<close>: every index up to the first that fails.\<close>

definition enum_trace :: "host \<Rightarrow> event list" where
  "enum_trace h = map (\<lambda>j. EnumDisplaySettings (Some j)) [0..<Suc (length (display_settings h))]"

text \<open>The \<^verbatim>\<open>(PelsWidth, PelsHeight)\<close> pairs of the driver's table.\<close>

definition native_modes :: "host \<Rightarrow> mode set" where
  "native_modes h = (\<lambda>d. (PelsWidth d, PelsHeight d)) ` set (display_settings h)"

text \<open>
  The \<^verbatim>\<open>DEVMODE\<close> that \<^verbatim>\<open>_win32_set\<close> hands to the native mode change: the one it fetched,
  with the four fields it assigns.
\<close>

definition requested_devmode :: "devmode \<Rightarrow> int \<Rightarrow> int \<Rightarrow> int option \<Rightarrow> devmode" where
  "requested_devmode d w h depth =
     d\<lparr>PelsWidth := w, PelsHeight := h,
       BitsPerPel := (case depth of None \<Rightarrow> 32 | Some n \<Rightarrow> if n = 0 then 32 else n),
       Fields := DM_PELSWIDTH OR DM_PELSHEIGHT\<rparr>"

text \<open>The line that \<^verbatim>\<open>set\<close> prints before it dispatches to the platform.\<close>

definition success_message :: "int option \<Rightarrow> int option \<Rightarrow> string" where
  "success_message width height =
     (if truthy width \<and> truthy height
      then ''Setting resolution to '' @ fmt width @ '' x '' @ fmt height
      else ''Setting resolution to defaults'')"

section \<open>Example hosts\<close>

definition example_devmode :: "int \<Rightarrow> int \<Rightarrow> int \<Rightarrow> devmode" where
  "example_devmode w h d = \<lparr>PelsWidth = w, PelsHeight = h, BitsPerPel = d, Fields = 0\<rparr>"

text \<open>
  A Windows host at 1280 x 720 whose driver lists 800 x 600, 1280 x 720 (at two colour
  depths) and 1920 x 1080. Sets are iterated in the order of a fixed list; for the tables
  of the example hosts this is the order in which CPython 3.11 iterates the set that
  \<^verbatim>\<open>_win32_get_modes\<close> builds: 1920 x 1080, 800 x 600, 1280 x 720 on this host.
\<close>

definition host_example :: host where
  "host_example =
     \<lparr>platform = ''win32'',
      shcore_SetProcessDpiAwareness = (\<lambda>_. Inr 0),
      user32_SetProcessDPIAware = Inr 1,
      user32_GetSystemMetrics = (\<lambda>i. Inr (if i = 0 then 1280 else 720)),
      display_settings =
        [example_devmode 800 600 32, example_devmode 1280 720 32,
         example_devmode 1920 1080 32, example_devmode 1280 720 16],
      current_settings = Inr (example_devmode 1280 720 32),
      win32api_ChangeDisplaySettings = (\<lambda>_ _. Inr 0),
      set_iter = (\<lambda>S. filter (\<lambda>m. m \<in> S)
                   [(1920, 1080), (800, 600), (1280, 720), (0, 600), (1080, 1920)])\<rparr>"

text \<open>The same host when the system metrics report 1024 x 768, which the driver does not list.\<close>

definition host_dpi :: host where
  "host_dpi =
     host_example\<lparr>user32_GetSystemMetrics := (\<lambda>i. Inr (if i = 0 then 1024 else 768))\<rparr>"

text \<open>A driver that reports a mode of width zero.\<close>

definition host_zero :: host where
  "host_zero =
     host_example\<lparr>display_settings := [example_devmode 0 600 32, example_devmode 1280 720 32]\<rparr>"

text \<open>
  A driver that lists a mode and its rotation, which have the same area, the rotated
  mode 1080 x 1920 first. The set of the three modes is iterated 1920 x 1080,
  800 x 600, 1080 x 1920.
\<close>

definition host_rotated :: host where
  "host_rotated =
     host_example\<lparr>display_settings :=
       [example_devmode 1080 1920 32, example_devmode 800 600 32, example_devmode 1920 1080 32]\<rparr>"

text \<open>A host whose native mode change raises.\<close>

definition host_refusing :: host where
  "host_refusing =
     host_example\<lparr>win32api_ChangeDisplaySettings := (\<lambda>_ _. Inl pywintypes_error)\<rparr>"

text \<open>A host without \<^verbatim>\<open>shcore.dll\<close>: the first call of \<^verbatim>\<open>_win32_get\<close> raises.\<close>

definition host_no_shcore :: host where
  "host_no_shcore = host_example\<lparr>shcore_SetProcessDpiAwareness := (\<lambda>_. Inl OSError)\<rparr>"

definition host_linux :: host where
  "host_linux = host_example\<lparr>platform := ''linux''\<rparr>"

definition host_cygwin :: host where
  "host_cygwin = host_example\<lparr>platform := ''cygwin''\<rparr>"

definition args_current :: args where
  "args_current = \<lparr>dimensions = None, current = True, modes = False\<rparr>"

definition args_list :: args where
  "args_list = \<lparr>dimensions = None, current = False, modes = True\<rparr>"

definition args_set :: "int \<Rightarrow> int \<Rightarrow> args" where
  "args_set w h = \<lparr>dimensions = Some (w, h), current = False, modes = False\<rparr>"

section \<open>Sequencing, printing and enumeration\<close>

lemma bind_io_Inr: "bind_io (t, Inr x) f = (t @ fst (f x), snd (f x))"
  by (simp add: bind_io_def split: prod.splits)

lemma bind_io_Inl: "bind_io (t, Inl e) f = (t, Inl e)"
  by (simp add: bind_io_def)

lemma snd_bind_io:
  "snd (bind_io m f) = (case snd m of Inl e \<Rightarrow> Inl e | Inr x \<Rightarrow> snd (f x))"
  by (cases m) (auto simp: bind_io_def split: sum.splits prod.splits)

lemma print_modes_eq:
  "print_modes cm ms = (map (\<lambda>m. Print (mode_line cm m)) ms, Inr ())"
  by (induction ms) (simp_all add: ret_def print_def bind_io_Inr)

text \<open>
  The enumeration loop, started at an index inside the table, asks for every index up
  to the length of the table, ends with the native error, and adds the pair of every
  entry it passed.
\<close>

lemma win32_get_modes_loop_eq:
  "i \<le> length (display_settings h) \<Longrightarrow>
   win32_get_modes_loop h i acc =
     (map (\<lambda>j. EnumDisplaySettings (Some j)) [i..<Suc (length (display_settings h))],
      pywintypes_error,
      acc \<union> (\<lambda>d. (PelsWidth d, PelsHeight d)) ` set (drop i (display_settings h)))"
proof (induction h i acc rule: win32_get_modes_loop.induct)
  case (1 h i modes)
  show ?case
  proof (cases "i < length (display_settings h)")
    case True
    then have api: "win32api_EnumDisplaySettings h i = Inr (display_settings h ! i)"
      by (simp add: win32api_EnumDisplaySettings_def)
    have drop: "drop i (display_settings h) = display_settings h ! i # drop (Suc i) (display_settings h)"
      using True by (simp add: Cons_nth_drop_Suc)
    have upt: "[i..<Suc (length (display_settings h))] = i # [Suc i..<Suc (length (display_settings h))]"
      using True by (simp add: upt_conv_Cons)
    from True have "i + 1 \<le> length (display_settings h)" by simp
    from "1.IH" [OF api this]
    have IH: "win32_get_modes_loop h (Suc i)
                (insert (PelsWidth (display_settings h ! i), PelsHeight (display_settings h ! i)) modes) =
              (map (\<lambda>j. EnumDisplaySettings (Some j)) [Suc i..<Suc (length (display_settings h))],
               pywintypes_error,
               insert (PelsWidth (display_settings h ! i), PelsHeight (display_settings h ! i)) modes \<union>
                 (\<lambda>d. (PelsWidth d, PelsHeight d)) ` set (drop (Suc i) (display_settings h)))"
      by simp
    show ?thesis
      apply (subst win32_get_modes_loop.simps)
      apply (simp only: api sum.case Suc_eq_plus1 [symmetric] IH prod.case)
      apply (simp only: upt drop list.map list.set image_insert)
      apply simp
      done
  next
    case False
    with "1.prems" have eq: "i = length (display_settings h)" by simp
    then have api: "win32api_EnumDisplaySettings h i = Inl pywintypes_error"
      by (simp add: win32api_EnumDisplaySettings_def)
    show ?thesis
      apply (subst win32_get_modes_loop.simps)
      apply (simp only: api sum.case)
      apply (simp add: eq)
      done
  qed
qed

lemma win32_get_modes_eq: "win32_get_modes h = (enum_trace h, Inr (native_modes h))"
  by (simp add: win32_get_modes_def win32_get_modes_loop_eq enum_trace_def native_modes_def)

section \<open>What \<^verbatim>\<open>get\<close>, \<^verbatim>\<open>get_modes\<close> and \<^verbatim>\<open>get_modes_sorted\<close> do\<close>

lemma get_trace_no_apply: "filter is_apply (fst (get h)) = []"
  by (auto simp: get_def win32_get_def bind_io_def native_def ret_def raise_def linux_get_def
      osx_get_def split: sum.splits prod.splits)

lemma get_trace_no_change: "filter is_change (fst (get h)) = []"
  by (auto simp: get_def win32_get_def bind_io_def native_def ret_def raise_def linux_get_def
      osx_get_def split: sum.splits prod.splits)

lemma get_trace_no_enum: "filter is_enum (fst (get h)) = []"
  by (auto simp: get_def win32_get_def bind_io_def native_def ret_def raise_def linux_get_def
      osx_get_def split: sum.splits prod.splits)

lemma enum_trace_no_apply: "filter is_apply (enum_trace h) = []"
  by (simp add: enum_trace_def filter_empty_conv)

lemma enum_trace_no_change: "filter is_change (enum_trace h) = []"
  by (simp add: enum_trace_def filter_empty_conv)

lemma get_modes_win32:
  "platform h = ''win32'' \<Longrightarrow> get_modes h = (enum_trace h, Inr (Some (native_modes h)))"
  by (simp add: get_modes_def win32_get_modes_eq bind_io_Inr ret_def)

lemma get_modes_other:
  "platform h \<noteq> ''win32'' \<Longrightarrow>
   get_modes h = ([], Inl NotImplementedError) \<or> get_modes h = ([], Inr None)"
  by (simp add: get_modes_def linux_get_modes_def osx_get_modes_def raise_def bind_io_Inl ret_def)

text \<open>Only the Windows backend returns a set, and the set is that of the driver's pairs.\<close>

lemma get_modes_Some:
  assumes "get_modes h = (t, Inr (Some S))"
  shows "platform h = ''win32'' \<and> t = enum_trace h \<and> S = native_modes h"
proof (cases "platform h = ''win32''")
  case True
  with assms get_modes_win32 [OF True] show ?thesis by simp
next
  case False
  with assms get_modes_other [OF False] show ?thesis by auto
qed

lemma get_modes_trace_no_apply: "filter is_apply (fst (get_modes h)) = []"
  using get_modes_win32 [of h] get_modes_other [of h] enum_trace_no_apply [of h]
  by (cases "platform h = ''win32''") auto

lemma get_modes_sorted_win32:
  "platform h = ''win32'' \<Longrightarrow>
   get_modes_sorted h = (enum_trace h, Inr (sorted_py area True (set_iter h (native_modes h))))"
  by (simp add: get_modes_sorted_def get_modes_win32 bind_io_Inr ret_def)

lemma get_modes_sorted_trace_no_apply: "filter is_apply (fst (get_modes_sorted h)) = []"
  using get_modes_win32 [of h] get_modes_other [of h] enum_trace_no_apply [of h]
  by (cases "platform h = ''win32''")
     (auto simp: get_modes_sorted_def bind_io_Inr bind_io_Inl ret_def raise_def)

section \<open>Python's \<^verbatim>\<open>sorted\<close>\<close>

lemma set_sorted_py: "set (sorted_py k r xs) = set xs"
  by (simp add: sorted_py_def)

lemma distinct_sorted_py: "distinct (sorted_py k r xs) = distinct xs"
  by (simp add: sorted_py_def)

lemma sorted_py_descending: "sorted_wrt (\<lambda>a b. k b \<le> k a) (sorted_py k True xs)"
proof -
  have "sorted (map k (sort_key k (rev xs)))" by (rule sorted_sort_key)
  then have "sorted_wrt (\<lambda>a b. k a \<le> k b) (sort_key k (rev xs))"
    by (simp add: sorted_map)
  then show ?thesis by (simp add: sorted_py_def sorted_wrt_rev)
qed

lemma sorted_py_stable:
  "filter (\<lambda>y. k y = c) (sorted_py k r xs) = filter (\<lambda>y. k y = c) xs"
  by (simp add: sorted_py_def rev_filter [symmetric] sort_key_stable)

section \<open>Evaluation on the example hosts\<close>

lemmas eval_defs =
  host_example_def host_dpi_def host_zero_def host_linux_def host_cygwin_def host_rotated_def
  host_refusing_def host_no_shcore_def args_current_def args_list_def args_set_def
  example_devmode_def
  get_def get_modes_def get_modes_sorted_def win32_get_def win32_get_modes_def set_res_def
  win32_set_def main_def bind_io_def native_def ret_def raise_def print_def
  linux_get_def linux_get_modes_def linux_set_def osx_get_def osx_get_modes_def osx_set_def
  win32_get_modes_loop.simps win32api_EnumDisplaySettings_def
  truthy_def fmt_def str_int_def str_nat.simps digit_char_def startswith_def
  sorted_py_def area_def eq_request_def not_in_modes_def mode_line_def subscript_def
  DM_PELSWIDTH_def DM_PELSHEIGHT_def enum_trace_def native_modes_def requested_devmode_def
  success_message_def

lemma get_host_example:
  "get host_example =
     ([SetProcessDpiAwareness 2, SetProcessDPIAware, GetSystemMetrics 0, GetSystemMetrics 1],
      Inr (Some (1280, 720)))"
  by (simp add: eval_defs)

section \<open>Requests that the display does not list (C1)\<close>




section \<open>A request for the current mode (C2)\<close>

text \<open>
  C2: for every width \<open>w\<close> and height \<open>h'\<close>, if \<^verbatim>\<open>get\<close> returns \<open>(w, h')\<close> then
  \<^verbatim>\<open>set(w, h')\<close>, at any depth, does nothing after the query but print that the
  resolution is already set, and returns normally: the trace is the trace of \<^verbatim>\<open>get\<close>
  followed by that one line, and it holds no enumeration call and no mode change.
\<close>

theorem set_current_noop:
  assumes "get h = (t, Inr (Some (w, h')))"
  shows "set_res h (Some w) (Some h') depth =
           (t @ [Print (''Resolution is already set to '' @ str_int w @ '' x '' @ str_int h')],
            Inr ())
         \<and> filter is_change t = [] \<and> filter is_enum t = []"
  using assms get_trace_no_change [of h] get_trace_no_enum [of h]
  by (simp add: set_res_def bind_io_Inr eq_request_def print_def fmt_def)

theorem set_current_noop_witness:
  "get host_example =
     ([SetProcessDpiAwareness 2, SetProcessDPIAware, GetSystemMetrics 0, GetSystemMetrics 1],
      Inr (Some (1280, 720))) \<and>
   set_res host_example (Some 1280) (Some 720) (Some 32) =
     ([SetProcessDpiAwareness 2, SetProcessDPIAware, GetSystemMetrics 0, GetSystemMetrics 1,
       Print ''Resolution is already set to 1280 x 720''],
      Inr ())"
proof -
  have g: "get host_example =
     ([SetProcessDpiAwareness 2, SetProcessDPIAware, GetSystemMetrics 0, GetSystemMetrics 1],
      Inr (Some (1280, 720)))"
    by (rule get_host_example)
  have s: "''Resolution is already set to '' @ str_int 1280 @ '' x '' @ str_int 720 =
           ''Resolution is already set to 1280 x 720''"
    by (simp add: str_int_def str_nat.simps digit_char_def)
  from set_current_noop [OF g, of "Some 32"] s
  have "set_res host_example (Some 1280) (Some 720) (Some 32) =
     ([SetProcessDpiAwareness 2, SetProcessDPIAware, GetSystemMetrics 0, GetSystemMetrics 1,
       Print ''Resolution is already set to 1280 x 720''],
      Inr ())"
    by simp
  with g show ?thesis by blast
qed

section \<open>A call without width and height (C3)\<close>

text \<open>
  A tuple holding \<^verbatim>\<open>None\<close> is in no set of modes, so the membership test sends
  \<^verbatim>\<open>set()\<close> to the rejection branch on every host: the branch that prints
  \<^verbatim>\<open>Setting resolution to defaults\<close> and the reset in \<^verbatim>\<open>_win32_set\<close> are never reached.
\<close>

lemma set_no_arguments_never_applies:
  "filter is_apply (fst (set_res h None None depth)) = []"
proof -
  have ne: "\<not> eq_request cm None None" for cm
    by (simp add: eq_request_def split: option.splits)
  have a: "filter is_apply (fst (get h)) = []" by (rule get_trace_no_apply)
  have b: "filter is_apply (fst (get_modes h)) = []" by (rule get_modes_trace_no_apply)
  have c: "filter is_apply (fst (get_modes_sorted h)) = []"
    by (rule get_modes_sorted_trace_no_apply)
  show ?thesis
    using a b c
    by (cases "get h"; cases "get_modes h"; cases "get_modes_sorted h")
      (auto simp: set_res_def ne bind_io_def not_in_modes_def ret_def raise_def print_def
        print_modes_eq filter_empty_conv split: sum.splits option.splits prod.splits)
qed

text \<open>
  C3 says that \<^verbatim>\<open>set()\<close>, with width and height omitted, reaches the native call with no
  explicit mode and resets the display to its default mode. The code does not: on the
  example host \<^verbatim>\<open>set()\<close> prints that \<^verbatim>\<open>None x None\<close> is not an available mode, lists the
  modes and returns, and it calls neither \<^verbatim>\<open>ChangeDisplaySettings\<close> nor anything else of
  \<^verbatim>\<open>_win32_set\<close>.
\<close>

theorem set_no_arguments_example:
  "set_res host_example None None (Some 32) =
     ([SetProcessDpiAwareness 2, SetProcessDPIAware, GetSystemMetrics 0, GetSystemMetrics 1,
       EnumDisplaySettings (Some 0), EnumDisplaySettings (Some 1), EnumDisplaySettings (Some 2),
       EnumDisplaySettings (Some 3), EnumDisplaySettings (Some 4),
       Print ''None x None is not an available mode.'',
       Print ''Available Modes:'',
       EnumDisplaySettings (Some 0), EnumDisplaySettings (Some 1), EnumDisplaySettings (Some 2),
       EnumDisplaySettings (Some 3), EnumDisplaySettings (Some 4),
       Print ''    1920 x 1080'', Print ''    1280 x 720 *'', Print ''    800 x 600''],
      Inr ())"
  by (simp add: eval_defs)

section \<open>The sorted list of modes (C4)\<close>

text \<open>
  As stated, C4 fails in its last part: \<^verbatim>\<open>_win32_get_modes\<close> collects the modes in a set,
  which does not keep the order in which the driver enumerated them, and
  \<^verbatim>\<open>get_modes_sorted\<close> sorts what the set yields. On \<open>host_rotated\<close> the driver enumerates
  1080 x 1920 before 1920 x 1080, two modes of the same area, and the sorted list has
  1920 x 1080 before 1080 x 1920.
\<close>

theorem get_modes_sorted_ties_counterexample:
  "display_settings host_rotated =
     [example_devmode 1080 1920 32, example_devmode 800 600 32, example_devmode 1920 1080 32] \<and>
   (1080 :: int) * 1920 = 1920 * 1080 \<and>
   snd (get_modes host_rotated) = Inr (Some {(1080, 1920), (800, 600), (1920, 1080)}) \<and>
   snd (get_modes_sorted host_rotated) = Inr [(1920, 1080), (1080, 1920), (800, 600)]"
  by (auto simp: eval_defs)

text \<open>
  C4, amended: whenever \<^verbatim>\<open>get_modes\<close> returns a set \<open>S\<close> of modes, \<^verbatim>\<open>get_modes_sorted\<close>
  returns a list that holds exactly the members of \<open>S\<close>, each once (a permutation of
  the set), in descending order of the area width times height; modes of equal area
  stand in the order in which Python iterates over the set (the sort is stable), which
  need not be the order of the native enumeration. Iterating over a set yields each
  of its members once.
\<close>

theorem get_modes_sorted_perm_desc_stable:
  assumes m: "get_modes h = (t, Inr (Some S))"
    and it: "set (set_iter h S) = S" "distinct (set_iter h S)"
  shows "\<exists>ys. get_modes_sorted h = (t, Inr ys) \<and> set ys = S \<and> distinct ys \<and>
           sorted_wrt (\<lambda>a b. fst b * snd b \<le> fst a * snd a) ys \<and>
           (\<forall>c. filter (\<lambda>m. fst m * snd m = c) ys =
                filter (\<lambda>m. fst m * snd m = c) (set_iter h S))"
proof -
  have run: "get_modes_sorted h = (t, Inr (sorted_py area True (set_iter h S)))"
    by (simp add: get_modes_sorted_def m bind_io_Inr ret_def)
  have desc: "sorted_wrt (\<lambda>a b. fst b * snd b \<le> fst a * snd a)
                (sorted_py area True (set_iter h S))"
    using sorted_py_descending [of area "set_iter h S"] by (simp add: area_def)
  have stable: "filter (\<lambda>m. fst m * snd m = c) (sorted_py area True (set_iter h S)) =
                filter (\<lambda>m. fst m * snd m = c) (set_iter h S)" for c
    using sorted_py_stable [of area c True "set_iter h S"] by (simp add: area_def)
  from run desc stable it show ?thesis
    by (simp add: set_sorted_py distinct_sorted_py)
qed

text \<open>
  On \<open>host_rotated\<close> the set yields 1920 x 1080, 800 x 600, 1080 x 1920, and the two
  modes of area 2073600 keep that order in the sorted list.
\<close>

theorem get_modes_sorted_perm_desc_stable_witness:
  "get_modes host_rotated = (enum_trace host_rotated, Inr (Some (native_modes host_rotated))) \<and>
   set_iter host_rotated (native_modes host_rotated) = [(1920, 1080), (800, 600), (1080, 1920)] \<and>
   set (set_iter host_rotated (native_modes host_rotated)) = native_modes host_rotated \<and>
   distinct (set_iter host_rotated (native_modes host_rotated)) \<and>
   get_modes_sorted host_rotated =
     (enum_trace host_rotated, Inr [(1920, 1080), (1080, 1920), (800, 600)]) \<and>
   (\<exists>ys. get_modes_sorted host_rotated = (enum_trace host_rotated, Inr ys) \<and>
      set ys = native_modes host_rotated \<and> distinct ys \<and>
      sorted_wrt (\<lambda>a b. fst b * snd b \<le> fst a * snd a) ys \<and>
      (\<forall>c. filter (\<lambda>m. fst m * snd m = c) ys =
           filter (\<lambda>m. fst m * snd m = c)
             (set_iter host_rotated (native_modes host_rotated))))"
proof -
  have win: "platform host_rotated = ''win32''"
    by (simp add: host_rotated_def host_example_def)
  have m: "get_modes host_rotated = (enum_trace host_rotated, Inr (Some (native_modes host_rotated)))"
    by (rule get_modes_win32 [OF win])
  have i: "set_iter host_rotated (native_modes host_rotated) = [(1920, 1080), (800, 600), (1080, 1920)]"
    by (simp add: host_rotated_def host_example_def native_modes_def example_devmode_def)
  have s: "set (set_iter host_rotated (native_modes host_rotated)) = native_modes host_rotated"
    unfolding i by (auto simp: host_rotated_def host_example_def native_modes_def example_devmode_def)
  have d: "distinct (set_iter host_rotated (native_modes host_rotated))"
    unfolding i by simp
  have e: "get_modes_sorted host_rotated =
     (enum_trace host_rotated, Inr [(1920, 1080), (1080, 1920), (800, 600)])"
    unfolding get_modes_sorted_win32 [OF win] i by (simp add: sorted_py_def area_def)
  note r = get_modes_sorted_perm_desc_stable [OF m s d]
  from m i s d e r show ?thesis by blast
qed

section \<open>Platforms without a backend (C5)\<close>

text \<open>
  On Linux and macOS every operation raises \<^verbatim>\<open>NotImplementedError\<close>, the exception of
  the stubs; \<^verbatim>\<open>set\<close> raises it in its first statement, the call of \<^verbatim>\<open>get\<close>.
\<close>

lemma stub_platforms_raise:
  assumes "platform h \<noteq> ''win32''"
    and "startswith (platform h) ''linux'' \<or> startswith (platform h) ''darwin''"
  shows "get h = ([], Inl NotImplementedError) \<and>
         get_modes h = ([], Inl NotImplementedError) \<and>
         set_res h width height depth = ([], Inl NotImplementedError)"
  using assms
  by (auto simp: get_def get_modes_def set_res_def linux_get_def osx_get_def
      linux_get_modes_def osx_get_modes_def raise_def bind_io_Inl)

text \<open>
  C5 says that on a host operating system without a backend each of \<^verbatim>\<open>get\<close>,
  \<^verbatim>\<open>get_modes\<close> and \<^verbatim>\<open>set\<close> fails with the unsupported-platform error (in the code,
  \<^verbatim>\<open>NotImplementedError\<close>) rather than returning a value or failing in another way. The
  dispatch has no \<^verbatim>\<open>else\<close> branch: where \<^verbatim>\<open>sys.platform\<close> is \<^verbatim>\<open>cygwin\<close>, \<^verbatim>\<open>get\<close> and
  \<^verbatim>\<open>get_modes\<close> return \<^verbatim>\<open>None\<close> and \<^verbatim>\<open>set\<close> raises \<^verbatim>\<open>TypeError\<close> at the membership test.
\<close>

theorem unknown_platform_example:
  "platform host_cygwin = ''cygwin'' \<and>
   get host_cygwin = ([], Inr None) \<and>
   get_modes host_cygwin = ([], Inr None) \<and>
   set_res host_cygwin (Some 1920) (Some 1080) (Some 32) = ([], Inl TypeError)"
  by (simp add: eval_defs)

section \<open>Errors at the entry point (C6)\<close>

text \<open>
  As stated, C6 fails: the entry point has no handler. On Linux, \<^verbatim>\<open>--current\<close> ends in
  the \<^verbatim>\<open>NotImplementedError\<close> of the stub, which leaves the entry point uncaught, and
  nothing is printed.
\<close>

theorem main_error_escapes_counterexample:
  "main host_linux args_current = ([], Inl NotImplementedError)"
  by (simp add: eval_defs)

text \<open>
  C6, amended: no error raised by the controller operations is caught at the entry
  point. Whatever exception \<^verbatim>\<open>set\<close> raises under \<^verbatim>\<open>--set\<close>, \<^verbatim>\<open>get\<close> raises under
  \<^verbatim>\<open>--current\<close>, or \<^verbatim>\<open>get_modes_sorted\<close> or the following \<^verbatim>\<open>get\<close> raises under \<^verbatim>\<open>--list\<close>,
  is the exception with which the entry point itself ends.
\<close>

theorem main_propagates_errors:
  "(dimensions a = Some (w, h') \<and> snd (set_res h (Some w) (Some h') (Some 32)) = Inl e
      \<longrightarrow> snd (main h a) = Inl e) \<and>
   (dimensions a = None \<and> current a \<and> snd (get h) = Inl e
      \<longrightarrow> snd (main h a) = Inl e) \<and>
   (dimensions a = None \<and> \<not> current a \<and> modes a \<and> snd (get_modes_sorted h) = Inl e
      \<longrightarrow> snd (main h a) = Inl e) \<and>
   (dimensions a = None \<and> \<not> current a \<and> modes a \<and> snd (get_modes_sorted h) = Inr ms \<and>
    snd (get h) = Inl e
      \<longrightarrow> snd (main h a) = Inl e)"
  by (simp add: main_def snd_bind_io print_def)

theorem main_propagates_errors_witness:
  "dimensions (args_set 1920 1080) = Some (1920, 1080) \<and>
   snd (set_res host_linux (Some 1920) (Some 1080) (Some 32)) = Inl NotImplementedError \<and>
   snd (main host_linux (args_set 1920 1080)) = Inl NotImplementedError \<and>
   dimensions args_current = None \<and> current args_current \<and>
   snd (get host_linux) = Inl NotImplementedError \<and>
   snd (main host_linux args_current) = Inl NotImplementedError \<and>
   dimensions args_list = None \<and> \<not> current args_list \<and> modes args_list \<and>
   snd (get_modes_sorted host_linux) = Inl NotImplementedError \<and>
   snd (main host_linux args_list) = Inl NotImplementedError \<and>
   snd (get_modes_sorted host_no_shcore) = Inr [(1920, 1080), (1280, 720), (800, 600)] \<and>
   snd (get host_no_shcore) = Inl OSError \<and>
   snd (main host_no_shcore args_list) = Inl OSError"
proof -
  have a1: "dimensions (args_set 1920 1080) = Some (1920, 1080)"
    by (simp add: args_set_def)
  have a2: "snd (set_res host_linux (Some 1920) (Some 1080) (Some 32)) = Inl NotImplementedError"
    by (simp add: eval_defs)
  have b1: "dimensions args_current = None \<and> current args_current"
    by (simp add: args_current_def)
  have b2: "snd (get host_linux) = Inl NotImplementedError"
    by (simp add: eval_defs)
  have c1: "dimensions args_list = None \<and> \<not> current args_list \<and> modes args_list"
    by (simp add: args_list_def)
  have c2: "snd (get_modes_sorted host_linux) = Inl NotImplementedError"
    by (simp add: eval_defs)
  have d1: "snd (get_modes_sorted host_no_shcore) = Inr [(1920, 1080), (1280, 720), (800, 600)]"
    by (simp add: eval_defs)
  have d2: "snd (get host_no_shcore) = Inl OSError"
    by (simp add: eval_defs)
  from main_propagates_errors [of "args_set 1920 1080" 1920 1080 host_linux NotImplementedError] a1 a2
  have a3: "snd (main host_linux (args_set 1920 1080)) = Inl NotImplementedError" by blast
  from main_propagates_errors [of args_current _ _ host_linux NotImplementedError] b1 b2
  have b3: "snd (main host_linux args_current) = Inl NotImplementedError" by blast
  from main_propagates_errors [of args_list _ _ host_linux NotImplementedError] c1 c2
  have c3: "snd (main host_linux args_list) = Inl NotImplementedError" by blast
  from main_propagates_errors
         [of args_list _ _ host_no_shcore OSError "[(1920, 1080), (1280, 720), (800, 600)]"] c1 d1 d2
  have d3: "snd (main host_no_shcore args_list) = Inl OSError" by blast
  from a1 a2 a3 b1 b2 b3 c1 c2 c3 d1 d2 d3 show ?thesis by blast
qed

section \<open>The line of \<^verbatim>\<open>--current\<close> (C7)\<close>

text \<open>
  As stated, C7 fails: the line that \<^verbatim>\<open>--current\<close> prints starts with a label. At
  1280 x 720 the output is the line \<^verbatim>\<open>Current Mode: 1280 x 720\<close>, not \<^verbatim>\<open>1280 x 720\<close>.
\<close>

theorem main_current_counterexample:
  "snd (get host_example) = Inr (Some (1280, 720)) \<and>
   printed (fst (main host_example args_current)) = [''Current Mode: 1280 x 720''] \<and>
   printed (fst (main host_example args_current)) \<noteq> [''1280 x 720'']"
  by (simp add: eval_defs)

text \<open>
  C7, amended: invoked with \<^verbatim>\<open>--current\<close>, when \<^verbatim>\<open>get\<close> returns the mode \<open>(w, h')\<close>, the
  entry point prints exactly one line, \<^verbatim>\<open>Current Mode: \<close> followed by the width, the
  literal \<^verbatim>\<open> x \<close> and the height, and ends normally.
\<close>

theorem main_current_prints:
  assumes "dimensions a = None" and "current a" and "get h = (t, Inr (Some (w, h')))"
  shows "main h a = (t @ [Print (''Current Mode: '' @ str_int w @ '' x '' @ str_int h')], Inr ())"
  using assms by (simp add: main_def bind_io_Inr subscript_def ret_def print_def)

theorem main_current_prints_witness:
  "dimensions args_current = None \<and> current args_current \<and>
   get host_example =
     ([SetProcessDpiAwareness 2, SetProcessDPIAware, GetSystemMetrics 0, GetSystemMetrics 1],
      Inr (Some (1280, 720))) \<and>
   main host_example args_current =
     ([SetProcessDpiAwareness 2, SetProcessDPIAware, GetSystemMetrics 0, GetSystemMetrics 1,
       Print ''Current Mode: 1280 x 720''],
      Inr ())"
proof -
  have a: "dimensions args_current = None" and c: "current args_current"
    by (simp_all add: args_current_def)
  have g: "get host_example =
     ([SetProcessDpiAwareness 2, SetProcessDPIAware, GetSystemMetrics 0, GetSystemMetrics 1],
      Inr (Some (1280, 720)))"
    by (rule get_host_example)
  have s: "''Current Mode: '' @ str_int 1280 @ '' x '' @ str_int 720 = ''Current Mode: 1280 x 720''"
    by (simp add: str_int_def str_nat.simps digit_char_def)
  from main_current_prints [OF a c g] s
  have "main host_example args_current =
     ([SetProcessDpiAwareness 2, SetProcessDPIAware, GetSystemMetrics 0, GetSystemMetrics 1,
       Print ''Current Mode: 1280 x 720''],
      Inr ())"
    by simp
  with a c g show ?thesis by blast
qed

section \<open>Applying a listed mode (C8)\<close>

lemma win32_set_apply:
  assumes "w \<noteq> 0" "h' \<noteq> 0" "current_settings h = Inr d"
  shows "win32_set h (Some w) (Some h') depth =
    ([EnumDisplaySettings None, ChangeDisplaySettings (Some (requested_devmode d w h' depth)) 0],
     map_sum id (\<lambda>_. ())
       (win32api_ChangeDisplaySettings h (Some (requested_devmode d w h' depth)) 0))"
  using assms
  by (cases "win32api_ChangeDisplaySettings h (Some (requested_devmode d w h' depth)) 0")
     (auto simp: win32_set_def truthy_def native_def bind_io_Inr bind_io_Inl ret_def Let_def
        requested_devmode_def split: option.splits)

text \<open>
  As stated, C8 fails at a listed mode with a zero dimension: \<^verbatim>\<open>set\<close> and \<^verbatim>\<open>_win32_set\<close>
  test the arguments for truth, and \<^verbatim>\<open>0\<close> is false like \<^verbatim>\<open>None\<close>. On \<open>host_zero\<close> the
  driver lists 0 x 600, the current mode is 1280 x 720, and \<^verbatim>\<open>set(0, 600)\<close> prints
  \<^verbatim>\<open>Setting resolution to defaults\<close> and issues the one native call
  \<^verbatim>\<open>ChangeDisplaySettings(None, 0)\<close>, which carries neither the width nor the height.
\<close>

theorem set_zero_width_counterexample:
  "snd (get_modes host_zero) = Inr (Some {(0, 600), (1280, 720)}) \<and>
   snd (get host_zero) = Inr (Some (1280, 720)) \<and>
   printed (fst (set_res host_zero (Some 0) (Some 600) (Some 32))) =
     [''Setting resolution to defaults''] \<and>
   filter is_change (fst (set_res host_zero (Some 0) (Some 600) (Some 32))) =
     [ChangeDisplaySettings None 0]"
  by (auto simp: eval_defs)

text \<open>
  C8, amended: for every width \<open>w\<close> and height \<open>h'\<close>, both not zero, whose pair is in the
  set that \<^verbatim>\<open>get_modes\<close> returns and is not the current mode that \<^verbatim>\<open>get\<close> returns, and
  when the call \<^verbatim>\<open>EnumDisplaySettings()\<close> that fetches the \<^verbatim>\<open>DEVMODE\<close> to fill in returns one,
  \<^verbatim>\<open>set(w, h', depth)\<close> prints \<^verbatim>\<open>Setting resolution to w x h'\<close> and issues exactly one native
  mode change, \<^verbatim>\<open>ChangeDisplaySettings(mode, 0)\<close>, whose \<^verbatim>\<open>mode\<close> carries the width \<open>w\<close>, the
  height \<open>h'\<close> and the given depth, the depth being 32 when the argument is \<^verbatim>\<open>None\<close> or zero.
\<close>

theorem set_available_applies_once:
  assumes g: "get h = (tg, Inr cm)"
    and ne: "cm \<noteq> Some (w, h')"
    and m: "get_modes h = (tm, Inr (Some S))"
    and isin: "(w, h') \<in> S"
    and nz: "w \<noteq> 0" "h' \<noteq> 0"
    and cur: "current_settings h = Inr d"
  shows "fst (set_res h (Some w) (Some h') depth) =
           tg @ tm @
           [Print (''Setting resolution to '' @ str_int w @ '' x '' @ str_int h'),
            EnumDisplaySettings None,
            ChangeDisplaySettings (Some (requested_devmode d w h' depth)) 0]
         \<and> filter is_change (fst (set_res h (Some w) (Some h') depth)) =
             [ChangeDisplaySettings (Some (requested_devmode d w h' depth)) 0]
         \<and> PelsWidth (requested_devmode d w h' depth) = w
         \<and> PelsHeight (requested_devmode d w h' depth) = h'
         \<and> BitsPerPel (requested_devmode d w h' depth) = (if truthy depth then the depth else 32)"
proof -
  from get_modes_Some [OF m] have win: "platform h = ''win32''" and tm: "tm = enum_trace h"
    by simp_all
  have neq: "\<not> eq_request cm (Some w) (Some h')"
    using ne by (auto simp: eq_request_def split: option.splits)
  have run: "fst (set_res h (Some w) (Some h') depth) =
           tg @ tm @
           [Print (''Setting resolution to '' @ str_int w @ '' x '' @ str_int h'),
            EnumDisplaySettings None,
            ChangeDisplaySettings (Some (requested_devmode d w h' depth)) 0]"
    using isin nz
    by (simp add: set_res_def g m neq bind_io_Inr not_in_modes_def ret_def print_def
        fmt_def truthy_def win win32_set_apply [OF nz cur])
  have "filter is_change tg = []" using get_trace_no_change [of h] g by simp
  moreover have "filter is_change tm = []" using enum_trace_no_change [of h] tm by simp
  ultimately have "filter is_change (fst (set_res h (Some w) (Some h') depth)) =
             [ChangeDisplaySettings (Some (requested_devmode d w h' depth)) 0]"
    by (simp add: run)
  moreover have "BitsPerPel (requested_devmode d w h' depth) =
                   (if truthy depth then the depth else 32)"
    by (simp add: requested_devmode_def truthy_def split: option.splits)
  ultimately show ?thesis using run by (simp add: requested_devmode_def)
qed

text \<open>
  The scenario of the specification: the current mode is 1280 x 720, 1920 x 1080 is
  listed, and the depth is left unset.
\<close>

theorem set_available_applies_once_witness:
  "get host_example =
     ([SetProcessDpiAwareness 2, SetProcessDPIAware, GetSystemMetrics 0, GetSystemMetrics 1],
      Inr (Some (1280, 720))) \<and>
   Some (1280, 720) \<noteq> Some (1920 :: int, 1080 :: int) \<and>
   get_modes host_example = (enum_trace host_example, Inr (Some (native_modes host_example))) \<and>
   (1920, 1080) \<in> native_modes host_example \<and>
   (1920 :: int) \<noteq> 0 \<and> (1080 :: int) \<noteq> 0 \<and>
   current_settings host_example = Inr (example_devmode 1280 720 32) \<and>
   filter is_change (fst (set_res host_example (Some 1920) (Some 1080) None)) =
     [ChangeDisplaySettings
        (Some \<lparr>PelsWidth = 1920, PelsHeight = 1080, BitsPerPel = 32, Fields = 1572864\<rparr>) 0]"
proof -
  have g: "get host_example =
     ([SetProcessDpiAwareness 2, SetProcessDPIAware, GetSystemMetrics 0, GetSystemMetrics 1],
      Inr (Some (1280, 720)))"
    by (rule get_host_example)
  have ne: "Some (1280, 720) \<noteq> Some (1920 :: int, 1080 :: int)" by simp
  have m: "get_modes host_example = (enum_trace host_example, Inr (Some (native_modes host_example)))"
    by (rule get_modes_win32) (simp add: host_example_def)
  have isin: "(1920, 1080) \<in> native_modes host_example"
    by (simp add: native_modes_def host_example_def example_devmode_def)
  have nz: "(1920 :: int) \<noteq> 0" "(1080 :: int) \<noteq> 0" by simp_all
  have cur: "current_settings host_example = Inr (example_devmode 1280 720 32)"
    by (simp add: host_example_def)
  have d: "requested_devmode (example_devmode 1280 720 32) 1920 1080 None =
           \<lparr>PelsWidth = 1920, PelsHeight = 1080, BitsPerPel = 32, Fields = 1572864\<rparr>"
    by (simp add: requested_devmode_def example_devmode_def DM_PELSWIDTH_def DM_PELSHEIGHT_def)
  from set_available_applies_once [OF g ne m isin nz cur, of None]
  have "filter is_change (fst (set_res host_example (Some 1920) (Some 1080) None)) =
     [ChangeDisplaySettings
        (Some (requested_devmode (example_devmode 1280 720 32) 1920 1080 None)) 0]"
    by blast
  then have "filter is_change (fst (set_res host_example (Some 1920) (Some 1080) None)) =
     [ChangeDisplaySettings
        (Some \<lparr>PelsWidth = 1920, PelsHeight = 1080, BitsPerPel = 32, Fields = 1572864\<rparr>) 0]"
    unfolding d .
  with g ne m isin nz cur show ?thesis by blast
qed

section \<open>The dimensions of the listed modes (C9)\<close>

text \<open>
  As stated, C9 fails: \<^verbatim>\<open>_win32_get_modes\<close> adds every pair that the native enumeration
  reports, unchecked. When the driver reports a mode of width zero, the pair \<open>(0, 600)\<close>
  is in the set that \<^verbatim>\<open>get_modes\<close> returns.
\<close>

theorem get_modes_zero_counterexample:
  "snd (get_modes host_zero) = Inr (Some {(0, 600), (1280, 720)}) \<and>
   (0, 600) \<in> {(0 :: int, 600 :: int), (1280, 720)} \<and> \<not> (0 :: int) < fst (0 :: int, 600 :: int)"
  by (auto simp: eval_defs)

text \<open>
  C9, amended: the set that \<^verbatim>\<open>get_modes\<close> returns is exactly the set of the pairs
  \<^verbatim>\<open>(PelsWidth, PelsHeight)\<close> of the modes that the native enumeration reports; so every
  member has a width and a height above zero if and only if every reported mode has.
\<close>

theorem get_modes_native_pairs:
  assumes "get_modes h = (t, Inr (Some S))"
  shows "S = (\<lambda>d. (PelsWidth d, PelsHeight d)) ` set (display_settings h) \<and>
         ((\<forall>r \<in> S. 0 < fst r \<and> 0 < snd r) =
          (\<forall>d \<in> set (display_settings h). 0 < PelsWidth d \<and> 0 < PelsHeight d))"
  using get_modes_Some [OF assms] by (auto simp: native_modes_def)

theorem get_modes_native_pairs_witness:
  "get_modes host_example = (enum_trace host_example, Inr (Some (native_modes host_example))) \<and>
   native_modes host_example =
     (\<lambda>d. (PelsWidth d, PelsHeight d)) ` set (display_settings host_example) \<and>
   list_all (\<lambda>d. 0 < PelsWidth d \<and> 0 < PelsHeight d) (display_settings host_example) \<and>
   list_all (\<lambda>r. 0 < fst r \<and> 0 < snd r)
     (set_iter host_example (native_modes host_example))"
proof -
  have m: "get_modes host_example = (enum_trace host_example, Inr (Some (native_modes host_example)))"
    by (rule get_modes_win32) (simp add: host_example_def)
  note r = get_modes_native_pairs [OF m]
  have p: "list_all (\<lambda>d. 0 < PelsWidth d \<and> 0 < PelsHeight d) (display_settings host_example)"
    by (simp add: host_example_def example_devmode_def)
  then have "\<forall>d \<in> set (display_settings host_example). 0 < PelsWidth d \<and> 0 < PelsHeight d"
    by (simp add: list_all_iff)
  with r have all: "\<forall>r \<in> native_modes host_example. 0 < fst r \<and> 0 < snd r"
    by blast
  have "set (set_iter host_example (native_modes host_example)) \<subseteq> native_modes host_example"
    by (auto simp: host_example_def)
  with all have q: "list_all (\<lambda>r. 0 < fst r \<and> 0 < snd r)
     (set_iter host_example (native_modes host_example))"
    by (auto simp: list_all_iff)
  from m r p q show ?thesis by blast
qed

section \<open>The message comes before the native call (C10)\<close>

text \<open>
  The trace of \<^verbatim>\<open>set\<close> either holds no call of the platform's apply method, or it is a
  part without such a call, then the line \<open>success_message\<close>, then the rest.
\<close>

lemma set_res_shape:
  "filter is_apply (fst (set_res h width height depth)) = [] \<or>
   (\<exists>A C. fst (set_res h width height depth) = A @ Print (success_message width height) # C \<and>
          filter is_apply A = [])"
proof -
  obtain tg rg where g: "get h = (tg, rg)" by (cases "get h")
  obtain tm rm where m: "get_modes h = (tm, rm)" by (cases "get_modes h")
  obtain ts rs where s: "get_modes_sorted h = (ts, rs)" by (cases "get_modes_sorted h")
  have tg: "filter is_apply tg = []" using get_trace_no_apply [of h] g by simp
  have tm: "filter is_apply tm = []" using get_modes_trace_no_apply [of h] m by simp
  have ts: "filter is_apply ts = []" using get_modes_sorted_trace_no_apply [of h] s by simp
  show ?thesis
  proof (cases rg)
    case (Inl e)
    then show ?thesis using tg by (simp add: set_res_def g bind_io_Inl)
  next
    case (Inr cm)
    note rg = this
    show ?thesis
    proof (cases "eq_request cm width height")
      case True
      then show ?thesis using tg by (simp add: set_res_def g rg bind_io_Inr print_def)
    next
      case False
      note neq = this
      show ?thesis
      proof (cases rm)
        case (Inl e)
        then show ?thesis
          using tg tm by (simp add: set_res_def g rg neq m bind_io_Inr bind_io_Inl)
      next
        case (Inr modes)
        note rm = this
        obtain ta ra where a: "not_in_modes width height modes = (ta, ra)"
          by (cases "not_in_modes width height modes")
        have ta: "ta = []"
          using a by (auto simp: not_in_modes_def ret_def raise_def split: option.splits)
        show ?thesis
        proof (cases ra)
          case (Inl e)
          then show ?thesis
            using tg tm by (simp add: set_res_def g rg neq m rm a ta bind_io_Inr bind_io_Inl)
        next
          case (Inr absent)
          note ra = this
          show ?thesis
          proof (cases absent)
            case True
            then show ?thesis
              using tg tm ts
              by (cases rs)
                 (simp_all add: set_res_def g rg neq m rm a ta ra s bind_io_Inr bind_io_Inl
                    print_def print_modes_eq filter_empty_conv)
          next
            case False
            have "fst (set_res h width height depth) =
                    (tg @ tm) @ Print (success_message width height) #
                      fst (if platform h = ''win32'' then win32_set h width height depth
                           else if startswith (platform h) ''linux''
                             then linux_set width height depth
                           else if startswith (platform h) ''darwin''
                             then osx_set width height depth
                           else ret ())"
              using False
              by (simp add: set_res_def g rg neq m rm a ta ra bind_io_Inr print_def
                    success_message_def)
            moreover have "filter is_apply (tg @ tm) = []" using tg tm by simp
            ultimately show ?thesis by blast
          qed
        qed
      qed
    qed
  qed
qed

text \<open>
  C10: in every run of \<^verbatim>\<open>set\<close>, whatever the host and the arguments, every native call of
  the platform's apply method stands in the trace strictly after the line
  \<^verbatim>\<open>Setting resolution to <w> x <h>\<close> (or \<^verbatim>\<open>Setting resolution to defaults\<close> when the width
  or the height is \<^verbatim>\<open>None\<close> or zero). The trace records the native call whether it returns
  or raises, so the line is printed also when the native call then fails.
\<close>

theorem set_message_before_apply:
  assumes tr: "fst (set_res h width height depth) = pre @ ev # post"
    and ev: "is_apply ev"
  shows "Print (success_message width height) \<in> set pre"
proof -
  from tr ev have "filter is_apply (fst (set_res h width height depth)) \<noteq> []"
    by (simp add: filter_empty_conv)
  with set_res_shape [of h width height depth]
  obtain A C where
    eq: "fst (set_res h width height depth) = A @ Print (success_message width height) # C"
    and A: "filter is_apply A = []" by blast
  from eq tr have "A @ Print (success_message width height) # C = pre @ ev # post" by simp
  then obtain us where
    "(A = pre @ us \<and> us @ Print (success_message width height) # C = ev # post) \<or>
     (A @ us = pre \<and> Print (success_message width height) # C = us @ ev # post)"
    by (auto simp: append_eq_append_conv2)
  then show ?thesis
  proof
    assume c: "A = pre @ us \<and> us @ Print (success_message width height) # C = ev # post"
    show ?thesis
    proof (cases us)
      case Nil
      with c ev show ?thesis by auto
    next
      case (Cons u us')
      with c have "ev \<in> set A" by auto
      with A ev show ?thesis by (auto simp: filter_empty_conv)
    qed
  next
    assume c: "A @ us = pre \<and> Print (success_message width height) # C = us @ ev # post"
    show ?thesis
    proof (cases us)
      case Nil
      with c ev show ?thesis by auto
    next
      case (Cons u us')
      with c have "u = Print (success_message width height)" by simp
      with c Cons show ?thesis by auto
    qed
  qed
qed

text \<open>
  A host whose native mode change raises: \<^verbatim>\<open>set(1920, 1080)\<close> ends in the exception, and
  the line stands in the trace before the two native calls of \<^verbatim>\<open>_win32_set\<close>.
\<close>

theorem set_message_before_apply_witness:
  "fst (set_res host_refusing (Some 1920) (Some 1080) (Some 32)) =
     [SetProcessDpiAwareness 2, SetProcessDPIAware, GetSystemMetrics 0, GetSystemMetrics 1,
      EnumDisplaySettings (Some 0), EnumDisplaySettings (Some 1), EnumDisplaySettings (Some 2),
      EnumDisplaySettings (Some 3), EnumDisplaySettings (Some 4),
      Print ''Setting resolution to 1920 x 1080'', EnumDisplaySettings None] @
     ChangeDisplaySettings
       (Some \<lparr>PelsWidth = 1920, PelsHeight = 1080, BitsPerPel = 32, Fields = 1572864\<rparr>) 0 # [] \<and>
   is_apply (ChangeDisplaySettings
       (Some \<lparr>PelsWidth = 1920, PelsHeight = 1080, BitsPerPel = 32, Fields = 1572864\<rparr>) 0) \<and>
   snd (set_res host_refusing (Some 1920) (Some 1080) (Some 32)) = Inl pywintypes_error \<and>
   success_message (Some 1920) (Some 1080) = ''Setting resolution to 1920 x 1080'' \<and>
   Print (success_message (Some 1920) (Some 1080)) \<in>
     set [SetProcessDpiAwareness 2, SetProcessDPIAware, GetSystemMetrics 0, GetSystemMetrics 1,
      EnumDisplaySettings (Some 0), EnumDisplaySettings (Some 1), EnumDisplaySettings (Some 2),
      EnumDisplaySettings (Some 3), EnumDisplaySettings (Some 4),
      Print ''Setting resolution to 1920 x 1080'', EnumDisplaySettings None]"
proof -
  have tr: "fst (set_res host_refusing (Some 1920) (Some 1080) (Some 32)) =
     [SetProcessDpiAwareness 2, SetProcessDPIAware, GetSystemMetrics 0, GetSystemMetrics 1,
      EnumDisplaySettings (Some 0), EnumDisplaySettings (Some 1), EnumDisplaySettings (Some 2),
      EnumDisplaySettings (Some 3), EnumDisplaySettings (Some 4),
      Print ''Setting resolution to 1920 x 1080'', EnumDisplaySettings None] @
     ChangeDisplaySettings
       (Some \<lparr>PelsWidth = 1920, PelsHeight = 1080, BitsPerPel = 32, Fields = 1572864\<rparr>) 0 # []"
    by (simp add: eval_defs)
  have ev: "is_apply (ChangeDisplaySettings
       (Some \<lparr>PelsWidth = 1920, PelsHeight = 1080, BitsPerPel = 32, Fields = 1572864\<rparr>) 0)"
    by simp
  have res: "snd (set_res host_refusing (Some 1920) (Some 1080) (Some 32)) = Inl pywintypes_error"
    by (simp add: eval_defs)
  have msg: "success_message (Some 1920) (Some 1080) = ''Setting resolution to 1920 x 1080''"
    by (simp add: success_message_def truthy_def fmt_def str_int_def str_nat.simps digit_char_def)
  note r = set_message_before_apply [OF tr ev]
  from tr ev res msg r show ?thesis by blast
qed

end
